theory Spec2Isabelle
  imports Main "HOL-Library.Word"
begin

section \<open>The multischeduler shim: \<^verbatim>\<open>pkg/scheduler/multischeduler/generic.go\<close>\<close>

text \<open>
  The file wraps the Kubernetes scheduler: \<^verbatim>\<open>NewScheduler\<close> picks a recorder factory and
  calls the external constructor \<^verbatim>\<open>scheduler.New\<close>; \<^verbatim>\<open>Run\<close> starts the informers, waits
  for the caches and then blocks on the stop channel. Everything the two functions call
  lives in client-go and in the scheduler library. The model keeps the two functions as
  they are written and records every external call they make, in order, in a log; the
  external calls that block are given a meaning in a discrete time that starts at the
  call of \<^verbatim>\<open>Run\<close>.
\<close>

subsection \<open>Values of the Go runtime\<close>

text \<open>
  A channel that is only ever closed and received from (\<^verbatim>\<open><-chan struct{}\<close>): the moment it
  is closed, \<open>None\<close> when nobody ever closes it. \<open>Some 0\<close> is a channel already closed.
\<close>

type_synonym chan = "nat option"

text \<open>\<^verbatim>\<open>context.Context\<close>: only its \<^verbatim>\<open>Done()\<close> channel is used.\<close>

record go_context =
  Done :: chan

text \<open>An \<^verbatim>\<open>error\<close> value; \<^verbatim>\<open>fmt.Errorf\<close> builds one from its message.\<close>

datatype go_error = Errorf string

text \<open>
  How a call ends: it panics (a method called on a nil interface), it never comes back,
  or it returns.
\<close>

datatype 'a outcome = Panic string | Blocked | Return 'a

definition nil_dereference :: string where
  "nil_dereference = ''invalid memory address or nil pointer dereference''"

subsection \<open>The external collaborators, as far as the file uses them\<close>

text \<open>
  Modelled from the spec: the types of the external collaborators of its section 6, which
  the file imports from client-go and from the scheduler library. Each is kept as far as
  \<^verbatim>\<open>NewScheduler\<close>, \<^verbatim>\<open>getRecorderFactory\<close> and \<^verbatim>\<open>Run\<close> use it.

  The clientset with its discovery client, the "capability probe
  \<^verbatim>\<open>ServerResourcesForGroupVersion(groupVersionString) -> (result, error)\<close>"; the file drops
  the result.
\<close>

datatype clientset = Clientset (ServerResourcesForGroupVersion: "string \<Rightarrow> go_error option")

text \<open>\<^verbatim>\<open>eventsv1beta1.SchemeGroupVersion.String()\<close>\<close>

definition eventsv1beta1_SchemeGroupVersion :: string where
  "eventsv1beta1_SchemeGroupVersion = ''events.k8s.io/v1beta1''"

datatype event_client = EventsGetter string
datatype event_interface = Events event_client string
datatype event_sink = EventSinkImpl event_interface

text \<open>
  \<^verbatim>\<open>events.EventBroadcaster\<close>: one that came with the configuration, or one made by
  \<^verbatim>\<open>events.NewBroadcaster\<close> over a sink.
\<close>

datatype broadcaster = EventBroadcaster string | NewBroadcaster event_sink

text \<open>\<^verbatim>\<open>record.EventBroadcaster\<close> (the legacy one) and the recorder it hands out.\<close>

datatype core_broadcaster = CoreEventBroadcaster string
datatype event_source = EventSource (Component: string)
datatype legacy_recorder = NewRecorder core_broadcaster event_source

text \<open>
  \<^verbatim>\<open>events.EventRecorder\<close>: the recorder of a broadcaster for a name, or the adapter
  \<^verbatim>\<open>record.NewEventRecorderAdapter\<close> puts around a legacy recorder.
\<close>

datatype event_recorder =
    BroadcasterRecorder broadcaster string
  | NewEventRecorderAdapter legacy_recorder

text \<open>\<^verbatim>\<open>profile.RecorderFactory\<close> is \<^verbatim>\<open>func(string) events.EventRecorder\<close>.\<close>

type_synonym RecorderFactory = "string \<Rightarrow> event_recorder outcome"

text \<open>\<^verbatim>\<open>profile.NewRecorderFactory(b)\<close>: the factory that asks \<open>b\<close> for a recorder.\<close>

definition NewRecorderFactory :: "broadcaster \<Rightarrow> RecorderFactory" where
  "NewRecorderFactory b = (\<lambda>name. Return (BroadcasterRecorder b name))"

text \<open>
  An informer (a DataFeed): its name and the moment, counted from the call of \<^verbatim>\<open>Run\<close>, at
  which its \<^verbatim>\<open>HasSynced\<close> turns true; \<open>None\<close> when its first listing never completes. The
  informer factory holds its informers; the pod informer is one more, outside the
  factory ("tracked separately from the aggregate factory").
\<close>

datatype informer = Informer (feed: string) (syncedAt: "nat option")

datatype informer_factory = SharedInformerFactory (informers: "informer list")

datatype pod_informer = NewPodInformer (podFeed: informer)

datatype profile = Profile string
datatype algorithm_source = SchedulerAlgorithmSource string
datatype extender = Extender string
datatype plugin_factory = PluginFactory string

text \<open>\<^verbatim>\<open>framework.Registry\<close> is \<^verbatim>\<open>map[string]PluginFactory\<close>.\<close>

type_synonym Registry = "string \<rightharpoonup> plugin_factory"

subsection \<open>The configuration and the handle\<close>

text \<open>The fields of \<^verbatim>\<open>KubeSchedulerConfiguration\<close> that \<^verbatim>\<open>NewScheduler\<close> reads.\<close>

record KubeSchedulerConfiguration =
  Profiles :: "profile list"
  AlgorithmSource :: algorithm_source
  DisablePreemption :: bool
  PercentageOfNodesToScore :: "32 word"
  BindTimeoutSeconds :: "64 word"
  PodMaxBackoffSeconds :: "64 word"
  PodInitialBackoffSeconds :: "64 word"
  Extenders :: "extender list"

text \<open>
  The fields of \<^verbatim>\<open>schedulerappconfig.Config\<close> that the file reads or writes; the struct has
  more (serving, authentication, leader election), which the file never touches. The
  clients, informers and broadcasters are interfaces: \<open>None\<close> is the nil interface.
\<close>

record Config =
  ComponentConfig :: KubeSchedulerConfiguration
  Client :: "clientset option"
  InformerFactory :: "informer_factory option"
  PodInformer :: "pod_informer option"
  CoreBroadcaster :: "core_broadcaster option"
  EventClient :: "event_client option"
  Broadcaster :: "broadcaster option"

text \<open>The options handed to \<^verbatim>\<open>scheduler.New\<close>.\<close>

datatype sched_option =
    WithProfiles "profile list"
  | WithAlgorithmSource algorithm_source
  | WithPreemptionDisabled bool
  | WithPercentageOfNodesToScore "32 word"
  | WithBindTimeoutSeconds "64 word"
  | WithFrameworkOutOfTreeRegistry Registry
  | WithPodMaxBackoffSeconds "64 word"
  | WithPodInitialBackoffSeconds "64 word"
  | WithExtenders "extender list"

text \<open>One call of \<^verbatim>\<open>scheduler.New\<close>: its five positional arguments and its options.\<close>

record new_args =
  client :: "clientset option"
  informerFactory :: "informer_factory option"
  podInformer :: "pod_informer option"
  recorderFactory :: RecorderFactory
  stopEverything :: chan
  opts :: "sched_option list"

text \<open>The scheduler the external constructor builds.\<close>

datatype core = SchedulerCore string

text \<open>
  \<^verbatim>\<open>type Scheduler struct\<close>: the embedded \<^verbatim>\<open>*scheduler.Scheduler\<close> (field \<open>core\<close>), the
  configuration and the stop channel.
\<close>

record Scheduler =
  core :: "core option"
  Config :: Config
  StopCh :: chan

text \<open>The external calls of the file, as the log records them.\<close>

datatype call =
    DiscoveryProbe string
  | EventsNewBroadcaster event_sink
  | SchedulerNew new_args
  | StartRecordingToSink broadcaster chan
  | GoInformerRun pod_informer chan
  | InformerFactoryStart informer_factory chan
  | InformerFactoryWaitForCacheSync informer_factory chan
  | CacheWaitForCacheSync chan "informer list"
  | Receive chan

subsection \<open>What the external calls do\<close>

text \<open>
  Modelled from the spec: the receive \<^verbatim>\<open><-ch\<close> on the ShutdownSignal, which lives in the
  Go runtime ("no reader is ever blocked forever if it was already closed before it
  started waiting"): a receive begun at \<open>now\<close> returns when the channel is closed, at once
  when it is closed already, and never when the channel is never closed.
\<close>

definition recv :: "chan \<Rightarrow> nat \<Rightarrow> nat option" where
  "recv ch now = map_option (max now) ch"

text \<open>
  Modelled from the spec: the moment "every registered feed has reported synced", the
  first one from \<open>now\<close> on at which every informer of the list has synced.
\<close>

fun allSyncedAt :: "informer list \<Rightarrow> nat \<Rightarrow> nat option" where
  "allSyncedAt [] now = Some now"
| "allSyncedAt (i # is) now =
     (case syncedAt i of None \<Rightarrow> None | Some t \<Rightarrow> allSyncedAt is (max now t))"

text \<open>
  Modelled from the spec: client-go's \<^verbatim>\<open>cache.WaitForCacheSync(stopCh, cacheSyncs...)\<close>, the
  \<^verbatim>\<open>WaitForSync\<close> of the SyncGate: it "blocks until either all registered feeds are marked
  synced (returns true) or cancelSignal fires first (returns false)". The feeds are the
  ones handed over in the call. The result is the moment the call returns and its
  boolean; \<open>None\<close> when neither ever happens. The feeds are looked at first, so a call
  with every feed synced answers true whatever the signal.
\<close>

definition cache_WaitForCacheSync :: "chan \<Rightarrow> informer list \<Rightarrow> nat \<Rightarrow> (nat \<times> bool) option" where
  "cache_WaitForCacheSync stopCh cacheSyncs now =
     (case (allSyncedAt cacheSyncs now, recv stopCh now) of
        (None, None) \<Rightarrow> None
      | (Some ts, None) \<Rightarrow> Some (ts, True)
      | (None, Some tc) \<Rightarrow> Some (tc, False)
      | (Some ts, Some tc) \<Rightarrow> if ts \<le> tc then Some (ts, True) else Some (tc, False))"

text \<open>Modelled from the spec: a feed is "synced" at moment \<open>t\<close>.\<close>

definition hasSynced :: "informer \<Rightarrow> nat \<Rightarrow> bool" where
  "hasSynced i t = (case syncedAt i of None \<Rightarrow> False | Some s \<Rightarrow> s \<le> t)"

text \<open>
  Modelled from the spec: the Informer Factory's
  "\<^verbatim>\<open>WaitForCacheSync(shutdownSignal) -> map[feedID]bool\<close>": it waits, as the gate does, for
  the informers of the factory or for the signal, and answers for each feed whether it
  has synced.
\<close>

definition factory_WaitForCacheSync ::
  "informer_factory \<Rightarrow> chan \<Rightarrow> nat \<Rightarrow> (nat \<times> (string \<times> bool) list) option" where
  "factory_WaitForCacheSync f stopCh now =
     (case cache_WaitForCacheSync stopCh (informers f) now of
        None \<Rightarrow> None
      | Some (t, ok) \<Rightarrow> Some (t, map (\<lambda>i. (feed i, hasSynced i t)) (informers f)))"

text \<open>
  Modelled from the spec: \<^verbatim>\<open>cc.Complete()\<close>, which gives the "completed configuration
  struct". In the scheduler's configuration package \<^verbatim>\<open>Complete\<close> has a pointer receiver and
  the completed configuration it returns embeds that pointer: here a pointer to the
  parameter \<^verbatim>\<open>cc\<close> of \<^verbatim>\<open>NewScheduler\<close>, which is the function's own copy of its argument.
  None of the fields of this model is filled in by \<^verbatim>\<open>Complete\<close>: what it fills in lies in
  fields of the configuration that the model leaves out, and nothing is proved about
  those. So reading or writing a field of the completed configuration reads or writes
  \<^verbatim>\<open>cc\<close>.
\<close>

definition Complete :: "Config \<Rightarrow> Config" where
  "Complete cc = cc"

subsection \<open>\<^verbatim>\<open>getRecorderFactory\<close>\<close>

text \<open>
  The function gets a pointer to the completed configuration and may assign its
  \<^verbatim>\<open>Broadcaster\<close>: the model returns the configuration as the call leaves it, beside the
  factory. The closure of the second branch reads \<^verbatim>\<open>cc.CoreBroadcaster\<close> when it is called;
  nothing in the file assigns that field, so the model reads it from the configuration at
  hand. A method called on a nil interface (\<^verbatim>\<open>cc.Client\<close>, \<^verbatim>\<open>cc.EventClient\<close>,
  \<^verbatim>\<open>cc.CoreBroadcaster\<close>) panics.
\<close>

definition getRecorderFactory :: "Config \<Rightarrow> call list \<times> (Config \<times> RecorderFactory) outcome" where
  "getRecorderFactory cc =
     (case Client cc of
        None \<Rightarrow> ([], Panic nil_dereference)
      | Some c \<Rightarrow>
         (case ServerResourcesForGroupVersion c eventsv1beta1_SchemeGroupVersion of
            None \<Rightarrow>
              (case EventClient cc of
                 None \<Rightarrow> ([DiscoveryProbe eventsv1beta1_SchemeGroupVersion], Panic nil_dereference)
               | Some ec \<Rightarrow>
                   let sink = EventSinkImpl (Events ec '''');
                       cc' = cc\<lparr>Broadcaster := Some (NewBroadcaster sink)\<rparr>
                   in ([DiscoveryProbe eventsv1beta1_SchemeGroupVersion, EventsNewBroadcaster sink],
                       Return (cc', NewRecorderFactory (NewBroadcaster sink))))
          | Some err \<Rightarrow>
              ([DiscoveryProbe eventsv1beta1_SchemeGroupVersion],
               Return (cc, \<lambda>name.
                 (case CoreBroadcaster cc of
                    None \<Rightarrow> Panic nil_dereference
                  | Some cb \<Rightarrow>
                      Return (NewEventRecorderAdapter (NewRecorder cb (EventSource name))))))))"

subsection \<open>\<^verbatim>\<open>NewScheduler\<close>\<close>

text \<open>
  The arguments of the one call of \<^verbatim>\<open>scheduler.New\<close>, in the order of the source.
\<close>

definition newArgs :: "Config \<Rightarrow> RecorderFactory \<Rightarrow> chan \<Rightarrow> Registry \<Rightarrow> new_args" where
  "newArgs cc recordFactory stopCh outOfTreeRegistry =
     \<lparr>client = Client cc,
      informerFactory = InformerFactory cc,
      podInformer = PodInformer cc,
      recorderFactory = recordFactory,
      stopEverything = stopCh,
      opts =
        [WithProfiles (Profiles (ComponentConfig cc)),
         WithAlgorithmSource (AlgorithmSource (ComponentConfig cc)),
         WithPreemptionDisabled (DisablePreemption (ComponentConfig cc)),
         WithPercentageOfNodesToScore (PercentageOfNodesToScore (ComponentConfig cc)),
         WithBindTimeoutSeconds (BindTimeoutSeconds (ComponentConfig cc)),
         WithFrameworkOutOfTreeRegistry outOfTreeRegistry,
         WithPodMaxBackoffSeconds (PodMaxBackoffSeconds (ComponentConfig cc)),
         WithPodInitialBackoffSeconds (PodInitialBackoffSeconds (ComponentConfig cc)),
         WithExtenders (Extenders (ComponentConfig cc))]\<rparr>"

text \<open>
  \<open>scheduler_New\<close> is the external constructor \<^verbatim>\<open>scheduler.New\<close>: it answers a call with a
  scheduler and an error. The result of \<^verbatim>\<open>NewScheduler\<close> is the pair the Go function
  returns: the handle (\<open>None\<close> is nil) and the error (\<open>None\<close> is nil).
\<close>

definition NewScheduler ::
  "(new_args \<Rightarrow> core option \<times> go_error option) \<Rightarrow> go_context \<Rightarrow> Config \<Rightarrow> chan
     \<Rightarrow> call list \<times> (Scheduler option \<times> go_error option) outcome" where
  "NewScheduler scheduler_New ctx cc stopCh =
     (let outOfTreeRegistry = Map.empty;
          completedConfig = Complete cc
      in case getRecorderFactory completedConfig of
           (log, Panic msg) \<Rightarrow> (log, Panic msg)
         | (log, Blocked) \<Rightarrow> (log, Blocked)
         | (log, Return (cc', recordFactory)) \<Rightarrow>
             let args = newArgs cc' recordFactory stopCh outOfTreeRegistry
             in (case scheduler_New args of
                   (sched, Some err) \<Rightarrow> (log @ [SchedulerNew args], Return (None, Some err))
                 | (sched, None) \<Rightarrow>
                     (log @ [SchedulerNew args],
                      Return (Some \<lparr>core = sched, Config = cc', StopCh = stopCh\<rparr>, None))))"

subsection \<open>\<^verbatim>\<open>Run\<close>\<close>

text \<open>
  Time starts at the call. The result is the log of the external calls, each with the
  moment it is made, and how the call ends: a return carries its moment and the error
  (\<open>None\<close> is nil). The \<^verbatim>\<open>go\<close> statement evaluates \<^verbatim>\<open>sched.Config.PodInformer.Informer()\<close>
  in the calling goroutine, so a nil \<^verbatim>\<open>PodInformer\<close> panics in \<^verbatim>\<open>Run\<close> itself. The map that
  the factory's wait returns is dropped, and \<^verbatim>\<open>cache.WaitForCacheSync\<close> is handed the
  context's channel and no informer.
\<close>

definition Run ::
  "Scheduler \<Rightarrow> go_context \<Rightarrow> (nat \<times> call) list \<times> (nat \<times> go_error option) outcome" where
  "Run sched ctx =
     (let log1 =
            (case (Broadcaster (Config sched), EventClient (Config sched)) of
               (Some b, Some ec) \<Rightarrow> [(0, StartRecordingToSink b (StopCh sched))]
             | _ \<Rightarrow> [])
      in case PodInformer (Config sched) of
           None \<Rightarrow> (log1, Panic nil_dereference)
         | Some p \<Rightarrow>
            (case InformerFactory (Config sched) of
               None \<Rightarrow> (log1 @ [(0, GoInformerRun p (StopCh sched))], Panic nil_dereference)
             | Some f \<Rightarrow>
                let log2 = log1 @ [(0, GoInformerRun p (StopCh sched)),
                                   (0, InformerFactoryStart f (StopCh sched)),
                                   (0, InformerFactoryWaitForCacheSync f (StopCh sched))]
                in (case factory_WaitForCacheSync f (StopCh sched) 0 of
                      None \<Rightarrow> (log2, Blocked)
                    | Some (t1, synced) \<Rightarrow>
                       let log3 = log2 @ [(t1, CacheWaitForCacheSync (Done ctx) [])]
                       in (case cache_WaitForCacheSync (Done ctx) [] t1 of
                             None \<Rightarrow> (log3, Blocked)
                           | Some (t2, ok) \<Rightarrow>
                              if \<not> ok
                              then (log3, Return (t2, Some (Errorf ''failed to wait cache sync'')))
                              else (case recv (StopCh sched) t2 of
                                      None \<Rightarrow> (log3 @ [(t2, Receive (StopCh sched))], Blocked)
                                    | Some t3 \<Rightarrow>
                                       (log3 @ [(t2, Receive (StopCh sched))],
                                        Return (t3, None)))))))"

subsection \<open>Reading a log and the state of the feeds\<close>

text \<open>The calls of \<^verbatim>\<open>scheduler.New\<close> in a log, and the registries among its options.\<close>

fun constructorCalls :: "call list \<Rightarrow> new_args list" where
  "constructorCalls [] = []"
| "constructorCalls (SchedulerNew a # cs) = a # constructorCalls cs"
| "constructorCalls (c # cs) = constructorCalls cs"

fun registries :: "sched_option list \<Rightarrow> Registry list" where
  "registries [] = []"
| "registries (WithFrameworkOutOfTreeRegistry r # os) = r # registries os"
| "registries (opt # os) = registries os"

fun probes :: "call list \<Rightarrow> string list" where
  "probes [] = []"
| "probes (DiscoveryProbe gv # cs) = gv # probes cs"
| "probes (c # cs) = probes cs"

text \<open>The two calls that wait for the caches, and the call that starts the recording.\<close>

fun isSyncWait :: "call \<Rightarrow> bool" where
  "isSyncWait (InformerFactoryWaitForCacheSync f ch) = True"
| "isSyncWait (CacheWaitForCacheSync ch is) = True"
| "isSyncWait c = False"


text \<open>A channel is closed at moment \<open>t\<close>; every informer of a factory has synced at \<open>t\<close>.\<close>

definition closedBy :: "chan \<Rightarrow> nat \<Rightarrow> bool" where
  "closedBy ch t = (case ch of None \<Rightarrow> False | Some c \<Rightarrow> c \<le> t)"

definition factorySyncedBy :: "informer_factory \<Rightarrow> nat \<Rightarrow> bool" where
  "factorySyncedBy f t = list_all (\<lambda>i. hasSynced i t) (informers f)"

text \<open>
  At moment \<open>t\<close> the informers of the factory have all synced or the channel is closed.
\<close>

definition waitOver :: "informer_factory \<Rightarrow> chan \<Rightarrow> nat \<Rightarrow> bool" where
  "waitOver f stopCh t = (factorySyncedBy f t \<or> closedBy stopCh t)"

text \<open>
  Every feed of a handle has synced at \<open>t\<close>: the pod informer and the informers of the
  factory. A feed that is not there has not synced.
\<close>

definition allFeedsSyncedBy :: "Scheduler \<Rightarrow> nat \<Rightarrow> bool" where
  "allFeedsSyncedBy sched t =
     (case (PodInformer (Config sched), InformerFactory (Config sched)) of
        (Some p, Some f) \<Rightarrow> hasSynced (podFeed p) t \<and> factorySyncedBy f t
      | _ \<Rightarrow> False)"

subsection \<open>Configurations to run the functions on\<close>

definition exampleComponentConfig :: KubeSchedulerConfiguration where
  "exampleComponentConfig =
     \<lparr>Profiles = [Profile ''default-scheduler''],
      AlgorithmSource = SchedulerAlgorithmSource ''DefaultProvider'',
      DisablePreemption = False,
      PercentageOfNodesToScore = 50,
      BindTimeoutSeconds = 600,
      PodMaxBackoffSeconds = 10,
      PodInitialBackoffSeconds = 1,
      Extenders = []\<rparr>"

text \<open>A cluster that serves the events group/version, and one that does not.\<close>

definition modernClient :: clientset where
  "modernClient = Clientset (\<lambda>gv. None)"

definition legacyClient :: clientset where
  "legacyClient = Clientset (\<lambda>gv. Some (Errorf ''the server could not find the requested resource''))"

text \<open>
  Two feeds: the pod informer ("pods"), synced from the start, and one informer of the
  factory ("nodes"), which never syncs.
\<close>

definition exampleConfig :: Config where
  "exampleConfig =
     \<lparr>ComponentConfig = exampleComponentConfig,
      Client = Some modernClient,
      InformerFactory = Some (SharedInformerFactory [Informer ''nodes'' None]),
      PodInformer = Some (NewPodInformer (Informer ''pods'' (Some 0))),
      CoreBroadcaster = Some (CoreEventBroadcaster ''core''),
      EventClient = Some (EventsGetter ''events''),
      Broadcaster = Some (EventBroadcaster ''given'')\<rparr>"

text \<open>The same with the factory's feed synced from the start and the pod informer never.\<close>

definition podsNeverConfig :: Config where
  "podsNeverConfig =
     exampleConfig\<lparr>InformerFactory := Some (SharedInformerFactory [Informer ''nodes'' (Some 0)]),
                   PodInformer := Some (NewPodInformer (Informer ''pods'' None))\<rparr>"

text \<open>An external constructor that builds a scheduler, and one that fails.\<close>

definition okNew :: "new_args \<Rightarrow> core option \<times> go_error option" where
  "okNew args = (Some (SchedulerCore ''scheduler''), None)"

definition failNew :: "new_args \<Rightarrow> core option \<times> go_error option" where
  "failNew args = (None, Some (Errorf ''could not create scheduler''))"

definition background :: go_context where
  "background = \<lparr>Done = None\<rparr>"

text \<open>
  The handle \<^verbatim>\<open>NewScheduler\<close> builds from a configuration with the event client "events" on
  a cluster that serves the events group/version.
\<close>

definition builtHandle :: "Config \<Rightarrow> chan \<Rightarrow> Scheduler" where
  "builtHandle cc stopCh =
     \<lparr>core = Some (SchedulerCore ''scheduler''),
      Config = cc\<lparr>Broadcaster :=
                    Some (NewBroadcaster (EventSinkImpl (Events (EventsGetter ''events'') '''')))\<rparr>,
      StopCh = stopCh\<rparr>"

text \<open>
  Configurations that lack a part: the client, both informers, the event client; and the
  example on a cluster that does not serve the events group/version.
\<close>

definition noClientConfig :: Config where
  "noClientConfig = exampleConfig\<lparr>Client := None\<rparr>"

definition noInformersConfig :: Config where
  "noInformersConfig = exampleConfig\<lparr>InformerFactory := None, PodInformer := None\<rparr>"

definition noEventClientConfig :: Config where
  "noEventClientConfig = exampleConfig\<lparr>EventClient := None\<rparr>"

definition legacyConfig :: Config where
  "legacyConfig = exampleConfig\<lparr>Client := Some legacyClient\<rparr>"


definition scenarioConfig :: Config where
  "scenarioConfig =
     exampleConfig\<lparr>InformerFactory := Some (SharedInformerFactory [Informer ''nodes'' (Some 5)])\<rparr>"

text \<open>A context that is cancelled at moment 3.\<close>

definition doneAt3 :: go_context where
  "doneAt3 = \<lparr>Done = Some 3\<rparr>"

section \<open>Construction\<close>

subsection \<open>The shape of \<^verbatim>\<open>NewScheduler\<close>\<close>

lemma NewScheduler_unfold:
  "NewScheduler N ctx cc stopCh =
     (case getRecorderFactory cc of
        (log, Return (cc', rf)) \<Rightarrow>
          (log @ [SchedulerNew (newArgs cc' rf stopCh Map.empty)],
           case snd (N (newArgs cc' rf stopCh Map.empty)) of
             Some err \<Rightarrow> Return (None, Some err)
           | None \<Rightarrow>
               Return (Some \<lparr>core = fst (N (newArgs cc' rf stopCh Map.empty)),
                             Config = cc', StopCh = stopCh\<rparr>, None))
      | (log, Panic m) \<Rightarrow> (log, Panic m)
      | (log, Blocked) \<Rightarrow> (log, Blocked))"
  by (simp add: NewScheduler_def Complete_def Let_def
           split: prod.splits outcome.splits option.splits)

lemma getRecorderFactory_no_constructor:
  "constructorCalls (fst (getRecorderFactory cc)) = []"
  by (simp add: getRecorderFactory_def Let_def split: option.splits)

lemma constructorCalls_append:
  "constructorCalls (xs @ ys) = constructorCalls xs @ constructorCalls ys"
  by (induction xs rule: constructorCalls.induct) simp_all

lemma constructorCalls_NewScheduler:
  "constructorCalls (fst (NewScheduler N ctx cc stopCh)) =
     (case snd (getRecorderFactory cc) of
        Return (cc', rf) \<Rightarrow> [newArgs cc' rf stopCh Map.empty]
      | _ \<Rightarrow> [])"
proof (cases "getRecorderFactory cc")
  case (Pair log out)
  with getRecorderFactory_no_constructor [of cc] have "constructorCalls log = []"
    by simp
  with Pair show ?thesis
    by (cases out) (auto simp: NewScheduler_unfold constructorCalls_append)
qed

lemma NewScheduler_example:
  "snd (NewScheduler okNew background exampleConfig stopCh) =
     Return (Some (builtHandle exampleConfig stopCh), None)"
  by (simp add: NewScheduler_unfold getRecorderFactory_def exampleConfig_def
        modernClient_def okNew_def builtHandle_def Let_def)

subsection \<open>The error of the external constructor\<close>

text \<open>
  C7. Whenever the external constructor \<^verbatim>\<open>scheduler.New\<close> has been called and has failed,
  \<^verbatim>\<open>NewScheduler\<close> returns a nil handle and that very error value; the constructor has been
  called once, so nothing is retried.
\<close>

theorem NewScheduler_propagates_constructor_error:
  assumes "args \<in> set (constructorCalls (fst (NewScheduler N ctx cc stopCh)))"
    and "snd (N args) = Some err"
  shows "snd (NewScheduler N ctx cc stopCh) = Return (None, Some err)
       \<and> constructorCalls (fst (NewScheduler N ctx cc stopCh)) = [args]"
proof (cases "getRecorderFactory cc")
  case (Pair log out)
  show ?thesis
  proof (cases out)
    case (Return r)
    obtain cc' rf where r: "r = (cc', rf)" by (cases r)
    from assms(1) Pair Return r have args: "args = newArgs cc' rf stopCh Map.empty"
      by (simp add: constructorCalls_NewScheduler)
    with assms(2) Pair Return r show ?thesis
      by (simp add: constructorCalls_NewScheduler) (simp add: NewScheduler_unfold)
  next
    case (Panic m)
    with assms(1) Pair show ?thesis by (simp add: constructorCalls_NewScheduler)
  next
    case Blocked
    with assms(1) Pair show ?thesis by (simp add: constructorCalls_NewScheduler)
  qed
qed

theorem NewScheduler_propagates_constructor_error_witness:
  "(\<exists>args. args \<in> set (constructorCalls (fst (NewScheduler failNew background exampleConfig (Some 10))))
       \<and> snd (failNew args) = Some (Errorf ''could not create scheduler''))
   \<and> snd (NewScheduler failNew background exampleConfig (Some 10)) =
       Return (None, Some (Errorf ''could not create scheduler''))"
proof -
  obtain args where
    "constructorCalls (fst (NewScheduler failNew background exampleConfig (Some 10))) = [args]"
    by (simp add: constructorCalls_NewScheduler getRecorderFactory_def exampleConfig_def
          modernClient_def Let_def)
  then have m: "args \<in> set (constructorCalls (fst (NewScheduler failNew background exampleConfig (Some 10))))"
    by simp
  have f: "snd (failNew args) = Some (Errorf ''could not create scheduler'')"
    by (simp add: failNew_def)
  from NewScheduler_propagates_constructor_error [OF m f] m f show ?thesis by blast
qed

subsection \<open>The out-of-tree registry\<close>

text \<open>
  C10. Every call of the external constructor that \<^verbatim>\<open>NewScheduler\<close> makes carries exactly one
  out-of-tree registry among its options, and that registry is empty: the map made by
  \<^verbatim>\<open>make(framework.Registry)\<close>, in which nothing has been registered.
\<close>

theorem NewScheduler_registry_empty:
  assumes "args \<in> set (constructorCalls (fst (NewScheduler N ctx cc stopCh)))"
  shows "registries (opts args) = [Map.empty]"
  using assms
  by (auto simp: constructorCalls_NewScheduler newArgs_def split: outcome.splits)

theorem NewScheduler_registry_empty_witness:
  "\<exists>args. args \<in> set (constructorCalls (fst (NewScheduler okNew background exampleConfig (Some 10))))
       \<and> registries (opts args) = [Map.empty]"
proof -
  obtain args where
    "constructorCalls (fst (NewScheduler okNew background exampleConfig (Some 10))) = [args]"
    by (simp add: constructorCalls_NewScheduler getRecorderFactory_def exampleConfig_def
          modernClient_def Let_def)
  then have m: "args \<in> set (constructorCalls (fst (NewScheduler okNew background exampleConfig (Some 10))))"
    by simp
  from NewScheduler_registry_empty [OF m] m show ?thesis by blast
qed

subsection \<open>No validation of the configuration\<close>

text \<open>
  C2, as stated, fails: \<^verbatim>\<open>NewScheduler\<close> has no check of its configuration and no
  configuration error. On a configuration without a client it panics at the discovery
  probe, and returns nothing; on a configuration without informer factory and pod
  informer it calls the external constructor all the same, and returns the handle when
  the constructor builds one.
\<close>

theorem NewScheduler_missing_field_counterexample:
  "NewScheduler okNew background noClientConfig (Some 10) = ([], Panic nil_dereference)
   \<and> snd (NewScheduler okNew background noInformersConfig (Some 10)) =
        Return (Some (builtHandle noInformersConfig (Some 10)), None)
   \<and> length (constructorCalls (fst (NewScheduler okNew background noInformersConfig (Some 10)))) = 1"
  by (simp add: constructorCalls_NewScheduler)
     (simp add: NewScheduler_unfold getRecorderFactory_def noClientConfig_def
           noInformersConfig_def exampleConfig_def
        modernClient_def okNew_def builtHandle_def Let_def)

text \<open>
  C2, amended. Without a client \<^verbatim>\<open>NewScheduler\<close> panics before any external call. With a
  client whose probe succeeds and no event client it panics after the probe, before the
  constructor. In every other case it calls the external constructor once, whatever else
  the configuration lacks. An error it returns comes with a nil handle and is the error
  of that call of the constructor.
\<close>

theorem NewScheduler_does_not_validate:
  "(Client cc = None \<longrightarrow> NewScheduler N ctx cc stopCh = ([], Panic nil_dereference))
   \<and> (\<forall>c. Client cc = Some c
          \<and> ServerResourcesForGroupVersion c eventsv1beta1_SchemeGroupVersion = None
          \<and> EventClient cc = None \<longrightarrow>
        snd (NewScheduler N ctx cc stopCh) = Panic nil_dereference
        \<and> constructorCalls (fst (NewScheduler N ctx cc stopCh)) = [])
   \<and> (\<forall>c. Client cc = Some c
          \<and> (ServerResourcesForGroupVersion c eventsv1beta1_SchemeGroupVersion = None
               \<longrightarrow> EventClient cc \<noteq> None) \<longrightarrow>
        length (constructorCalls (fst (NewScheduler N ctx cc stopCh))) = 1)
   \<and> (\<forall>h e. snd (NewScheduler N ctx cc stopCh) = Return (h, Some e) \<longrightarrow>
        h = None \<and> (\<exists>args. constructorCalls (fst (NewScheduler N ctx cc stopCh)) = [args]
                        \<and> snd (N args) = Some e))"
proof (intro conjI allI impI)
  assume "Client cc = None"
  then show "NewScheduler N ctx cc stopCh = ([], Panic nil_dereference)"
    by (simp add: NewScheduler_unfold getRecorderFactory_def)
next
  fix c
  assume "Client cc = Some c
          \<and> ServerResourcesForGroupVersion c eventsv1beta1_SchemeGroupVersion = None
          \<and> EventClient cc = None"
  then have g: "getRecorderFactory cc =
      ([DiscoveryProbe eventsv1beta1_SchemeGroupVersion], Panic nil_dereference)"
    by (simp add: getRecorderFactory_def)
  from g show "snd (NewScheduler N ctx cc stopCh) = Panic nil_dereference"
    by (simp add: NewScheduler_unfold)
  from g show "constructorCalls (fst (NewScheduler N ctx cc stopCh)) = []"
    by (simp add: constructorCalls_NewScheduler)
next
  fix c
  assume "Client cc = Some c
          \<and> (ServerResourcesForGroupVersion c eventsv1beta1_SchemeGroupVersion = None
               \<longrightarrow> EventClient cc \<noteq> None)"
  then have "\<exists>r. snd (getRecorderFactory cc) = Return r"
    by (auto simp: getRecorderFactory_def Let_def split: option.splits)
  then show "length (constructorCalls (fst (NewScheduler N ctx cc stopCh))) = 1"
    by (auto simp: constructorCalls_NewScheduler)
next
  fix h e
  assume ret: "snd (NewScheduler N ctx cc stopCh) = Return (h, Some e)"
  then show "h = None"
    by (auto simp: NewScheduler_unfold split: prod.splits outcome.splits option.splits)
  from ret show "\<exists>args. constructorCalls (fst (NewScheduler N ctx cc stopCh)) = [args]
                        \<and> snd (N args) = Some e"
    by (simp add: constructorCalls_NewScheduler)
       (auto simp: NewScheduler_unfold split: prod.splits outcome.splits option.splits)
qed

theorem NewScheduler_does_not_validate_witness:
  "Client noClientConfig = None
   \<and> NewScheduler failNew background noClientConfig (Some 10) = ([], Panic nil_dereference)
   \<and> Client noEventClientConfig = Some modernClient
   \<and> ServerResourcesForGroupVersion modernClient eventsv1beta1_SchemeGroupVersion = None
   \<and> EventClient noEventClientConfig = None
   \<and> snd (NewScheduler failNew background noEventClientConfig (Some 10)) = Panic nil_dereference
   \<and> Client noInformersConfig = Some modernClient
   \<and> EventClient noInformersConfig \<noteq> None
   \<and> length (constructorCalls (fst (NewScheduler failNew background noInformersConfig (Some 10)))) = 1
   \<and> snd (NewScheduler failNew background noInformersConfig (Some 10)) =
        Return (None, Some (Errorf ''could not create scheduler''))
   \<and> (\<exists>args. constructorCalls (fst (NewScheduler failNew background noInformersConfig (Some 10))) = [args]
          \<and> snd (failNew args) = Some (Errorf ''could not create scheduler''))"
proof -
  have a: "Client noClientConfig = None"
    and b: "Client noInformersConfig = Some modernClient"
    and c: "EventClient noInformersConfig \<noteq> None"
    and d: "Client noEventClientConfig = Some modernClient"
    and e: "ServerResourcesForGroupVersion modernClient eventsv1beta1_SchemeGroupVersion = None"
    and f: "EventClient noEventClientConfig = None"
    by (simp_all add: noClientConfig_def noInformersConfig_def noEventClientConfig_def
          exampleConfig_def modernClient_def)
  have r: "snd (NewScheduler failNew background noInformersConfig (Some 10)) =
        Return (None, Some (Errorf ''could not create scheduler''))"
    by (simp add: NewScheduler_unfold getRecorderFactory_def noInformersConfig_def
          exampleConfig_def modernClient_def failNew_def Let_def)
  note v = NewScheduler_does_not_validate
  from v [of noClientConfig failNew background "Some 10"] a
  have 1: "NewScheduler failNew background noClientConfig (Some 10) = ([], Panic nil_dereference)"
    by blast
  from v [of noEventClientConfig failNew background "Some 10"] d e f
  have 2: "snd (NewScheduler failNew background noEventClientConfig (Some 10)) = Panic nil_dereference"
    by blast
  from v [of noInformersConfig failNew background "Some 10"] b c
  have 3: "length (constructorCalls (fst (NewScheduler failNew background noInformersConfig (Some 10)))) = 1"
    by blast
  from v [of noInformersConfig failNew background "Some 10"] r
  have 4: "\<exists>args. constructorCalls (fst (NewScheduler failNew background noInformersConfig (Some 10))) = [args]
          \<and> snd (failNew args) = Some (Errorf ''could not create scheduler'')"
    by blast
  from a b c d e f r 1 2 3 4 show ?thesis by blast
qed

subsection \<open>The configuration after the construction\<close>

text \<open>
  C5, as stated, fails. On a cluster that serves the events group/version,
  \<^verbatim>\<open>getRecorderFactory\<close> assigns \<^verbatim>\<open>cc.Broadcaster\<close>: the configuration in the handle has a new
  broadcaster where the configuration handed in had the given one.
\<close>

theorem NewScheduler_replaces_broadcaster_counterexample:
  "snd (NewScheduler okNew background exampleConfig (Some 10)) =
      Return (Some (builtHandle exampleConfig (Some 10)), None)
   \<and> Broadcaster exampleConfig = Some (EventBroadcaster ''given'')
   \<and> Broadcaster (Config (builtHandle exampleConfig (Some 10))) =
      Some (NewBroadcaster (EventSinkImpl (Events (EventsGetter ''events'') '''')))
   \<and> Config (builtHandle exampleConfig (Some 10)) \<noteq> exampleConfig"
  by (simp add: NewScheduler_example) (simp add: exampleConfig_def builtHandle_def)

text \<open>
  C5, amended. In a handle that \<^verbatim>\<open>NewScheduler\<close> returns, each field of the configuration
  that this file reads (\<^verbatim>\<open>ComponentConfig\<close>, \<^verbatim>\<open>Client\<close>, \<^verbatim>\<open>InformerFactory\<close>, \<^verbatim>\<open>PodInformer\<close>,
  \<^verbatim>\<open>CoreBroadcaster\<close>, \<^verbatim>\<open>EventClient\<close>) is as it was handed in. \<^verbatim>\<open>Broadcaster\<close>, the one
  field the file assigns, is as it was when the probe fails, and is a new broadcaster
  over the sink of the event client when the probe succeeds. Nothing is said of the
  other fields of \<^verbatim>\<open>schedulerappconfig.Config\<close>, which \<^verbatim>\<open>cc.Complete()\<close> may fill in.
\<close>

theorem NewScheduler_config_frame:
  assumes "snd (NewScheduler N ctx cc stopCh) = Return (Some h, e)"
  shows "ComponentConfig (Config h) = ComponentConfig cc
       \<and> Client (Config h) = Client cc
       \<and> InformerFactory (Config h) = InformerFactory cc
       \<and> PodInformer (Config h) = PodInformer cc
       \<and> CoreBroadcaster (Config h) = CoreBroadcaster cc
       \<and> EventClient (Config h) = EventClient cc
       \<and> (\<exists>c. Client cc = Some c
            \<and> (case ServerResourcesForGroupVersion c eventsv1beta1_SchemeGroupVersion of
                 Some err \<Rightarrow> Broadcaster (Config h) = Broadcaster cc
               | None \<Rightarrow>
                   (\<exists>ec. EventClient cc = Some ec
                      \<and> Broadcaster (Config h) =
                            Some (NewBroadcaster (EventSinkImpl (Events ec ''''))))))"
  using assms
  by (auto simp: NewScheduler_unfold getRecorderFactory_def Let_def
           split: prod.splits outcome.splits option.splits)

theorem NewScheduler_config_frame_witness:
  "snd (NewScheduler okNew background legacyConfig (Some 10)) =
      Return (Some \<lparr>core = Some (SchedulerCore ''scheduler''), Config = legacyConfig,
                    StopCh = Some 10\<rparr>, None)
   \<and> snd (NewScheduler okNew background exampleConfig (Some 10)) =
      Return (Some (builtHandle exampleConfig (Some 10)), None)
   \<and> ComponentConfig (Config (builtHandle exampleConfig (Some 10)))
        = ComponentConfig exampleConfig
   \<and> Client (Config (builtHandle exampleConfig (Some 10))) = Client exampleConfig
   \<and> InformerFactory (Config (builtHandle exampleConfig (Some 10)))
        = InformerFactory exampleConfig
   \<and> PodInformer (Config (builtHandle exampleConfig (Some 10))) = PodInformer exampleConfig
   \<and> CoreBroadcaster (Config (builtHandle exampleConfig (Some 10)))
        = CoreBroadcaster exampleConfig
   \<and> EventClient (Config (builtHandle exampleConfig (Some 10))) = EventClient exampleConfig"
proof -
  have r: "snd (NewScheduler okNew background legacyConfig (Some 10)) =
      Return (Some \<lparr>core = Some (SchedulerCore ''scheduler''), Config = legacyConfig,
                    StopCh = Some 10\<rparr>, None)"
    by (simp add: NewScheduler_unfold getRecorderFactory_def legacyConfig_def legacyClient_def
          exampleConfig_def okNew_def Let_def)
  note m = NewScheduler_example [of "Some 10"]
  from NewScheduler_config_frame [OF r] NewScheduler_config_frame [OF m] r m
  show ?thesis by blast
qed

subsection \<open>The choice of the recorder factory\<close>

text \<open>
  C6, as stated for every configuration, fails: when the probe succeeds and the
  configuration has no event client, \<^verbatim>\<open>cc.EventClient.Events("")\<close> is a call on a nil
  interface; \<^verbatim>\<open>getRecorderFactory\<close> panics and returns no factory, and so does
  \<^verbatim>\<open>NewScheduler\<close>.
\<close>

theorem getRecorderFactory_nil_event_client_counterexample:
  "Client noEventClientConfig = Some modernClient
   \<and> ServerResourcesForGroupVersion modernClient eventsv1beta1_SchemeGroupVersion = None
   \<and> getRecorderFactory noEventClientConfig =
        ([DiscoveryProbe eventsv1beta1_SchemeGroupVersion], Panic nil_dereference)
   \<and> snd (NewScheduler okNew background noEventClientConfig (Some 10)) = Panic nil_dereference"
  by (simp add: NewScheduler_unfold getRecorderFactory_def noEventClientConfig_def
        exampleConfig_def modernClient_def Let_def)

lemma probes_getRecorderFactory:
  "Client cc = Some c \<Longrightarrow> probes (fst (getRecorderFactory cc)) = [eventsv1beta1_SchemeGroupVersion]"
  by (simp add: getRecorderFactory_def Let_def split: option.splits)

text \<open>
  C6, amended. With a client, \<^verbatim>\<open>getRecorderFactory\<close> probes the events group/version once.
  When the probe succeeds and there is an event client, it returns the factory of a new
  broadcaster over the sink of that client, and stores the broadcaster in the
  configuration. When the probe fails it returns, with the configuration as it was, a
  factory whose recorders are adapters around the recorders of the legacy broadcaster
  (when the configuration has one); \<^verbatim>\<open>NewScheduler\<close> then returns a handle whenever the
  external constructor builds a scheduler. When the probe succeeds and there is no event
  client, it panics after the probe and returns no factory.
\<close>

theorem getRecorderFactory_selects_by_probe:
  assumes "Client cc = Some c"
  shows "probes (fst (getRecorderFactory cc)) = [eventsv1beta1_SchemeGroupVersion]
    \<and> (\<forall>ec. ServerResourcesForGroupVersion c eventsv1beta1_SchemeGroupVersion = None
             \<and> EventClient cc = Some ec \<longrightarrow>
          snd (getRecorderFactory cc) =
            Return (cc\<lparr>Broadcaster := Some (NewBroadcaster (EventSinkImpl (Events ec '''')))\<rparr>,
                    NewRecorderFactory (NewBroadcaster (EventSinkImpl (Events ec '''')))))
    \<and> (\<forall>err. ServerResourcesForGroupVersion c eventsv1beta1_SchemeGroupVersion = Some err \<longrightarrow>
          (\<exists>rf. snd (getRecorderFactory cc) = Return (cc, rf)
             \<and> (\<forall>cb name. CoreBroadcaster cc = Some cb \<longrightarrow>
                   rf name = Return (NewEventRecorderAdapter (NewRecorder cb (EventSource name))))
             \<and> (\<forall>N ctx stopCh. snd (N (newArgs cc rf stopCh Map.empty)) = None \<longrightarrow>
                   snd (NewScheduler N ctx cc stopCh) =
                     Return (Some \<lparr>core = fst (N (newArgs cc rf stopCh Map.empty)),
                                   Config = cc, StopCh = stopCh\<rparr>, None))))
    \<and> (ServerResourcesForGroupVersion c eventsv1beta1_SchemeGroupVersion = None
          \<and> EventClient cc = None \<longrightarrow>
        getRecorderFactory cc =
          ([DiscoveryProbe eventsv1beta1_SchemeGroupVersion], Panic nil_dereference))"
proof -
  have single: "probes (fst (getRecorderFactory cc)) = [eventsv1beta1_SchemeGroupVersion]"
    using assms by (rule probes_getRecorderFactory)
  have modern: "snd (getRecorderFactory cc) =
            Return (cc\<lparr>Broadcaster := Some (NewBroadcaster (EventSinkImpl (Events ec '''')))\<rparr>,
                    NewRecorderFactory (NewBroadcaster (EventSinkImpl (Events ec ''''))))"
    if "ServerResourcesForGroupVersion c eventsv1beta1_SchemeGroupVersion = None
             \<and> EventClient cc = Some ec" for ec
    using that assms by (simp add: getRecorderFactory_def Let_def)
  have legacy: "\<exists>rf. snd (getRecorderFactory cc) = Return (cc, rf)
             \<and> (\<forall>cb name. CoreBroadcaster cc = Some cb \<longrightarrow>
                   rf name = Return (NewEventRecorderAdapter (NewRecorder cb (EventSource name))))
             \<and> (\<forall>N ctx stopCh. snd (N (newArgs cc rf stopCh Map.empty)) = None \<longrightarrow>
                   snd (NewScheduler N ctx cc stopCh) =
                     Return (Some \<lparr>core = fst (N (newArgs cc rf stopCh Map.empty)),
                                   Config = cc, StopCh = stopCh\<rparr>, None))"
    if fails: "ServerResourcesForGroupVersion c eventsv1beta1_SchemeGroupVersion = Some err"
    for err
  proof -
    let ?rf = "\<lambda>name. case CoreBroadcaster cc of
                      None \<Rightarrow> Panic nil_dereference
                    | Some cb \<Rightarrow>
                        Return (NewEventRecorderAdapter (NewRecorder cb (EventSource name)))"
    from assms fails have g: "getRecorderFactory cc =
        ([DiscoveryProbe eventsv1beta1_SchemeGroupVersion], Return (cc, ?rf))"
      by (simp add: getRecorderFactory_def)
    show ?thesis
      by (rule exI [of _ ?rf]) (simp add: g NewScheduler_unfold)
  qed
  have panics: "getRecorderFactory cc =
          ([DiscoveryProbe eventsv1beta1_SchemeGroupVersion], Panic nil_dereference)"
    if "ServerResourcesForGroupVersion c eventsv1beta1_SchemeGroupVersion = None
          \<and> EventClient cc = None"
    using that assms by (simp add: getRecorderFactory_def)
  from single modern legacy panics show ?thesis by blast
qed

theorem getRecorderFactory_selects_by_probe_witness:
  "Client exampleConfig = Some modernClient
   \<and> ServerResourcesForGroupVersion modernClient eventsv1beta1_SchemeGroupVersion = None
   \<and> EventClient exampleConfig = Some (EventsGetter ''events'')
   \<and> snd (getRecorderFactory exampleConfig) =
        Return (Config (builtHandle exampleConfig None),
                NewRecorderFactory
                  (NewBroadcaster (EventSinkImpl (Events (EventsGetter ''events'') ''''))))
   \<and> Client legacyConfig = Some legacyClient
   \<and> ServerResourcesForGroupVersion legacyClient eventsv1beta1_SchemeGroupVersion
        = Some (Errorf ''the server could not find the requested resource'')
   \<and> CoreBroadcaster legacyConfig = Some (CoreEventBroadcaster ''core'')
   \<and> (\<exists>rf. snd (getRecorderFactory legacyConfig) = Return (legacyConfig, rf)
         \<and> rf ''default-scheduler'' =
             Return (NewEventRecorderAdapter
                      (NewRecorder (CoreEventBroadcaster ''core'')
                         (EventSource ''default-scheduler'')))
         \<and> snd (okNew (newArgs legacyConfig rf (Some 10) Map.empty)) = None
         \<and> snd (NewScheduler okNew background legacyConfig (Some 10)) =
             Return (Some \<lparr>core = Some (SchedulerCore ''scheduler''), Config = legacyConfig,
                           StopCh = Some 10\<rparr>, None))
   \<and> Client noEventClientConfig = Some modernClient
   \<and> EventClient noEventClientConfig = None
   \<and> getRecorderFactory noEventClientConfig =
        ([DiscoveryProbe eventsv1beta1_SchemeGroupVersion], Panic nil_dereference)"
proof -
  have m: "Client exampleConfig = Some modernClient"
    and ok: "ServerResourcesForGroupVersion modernClient eventsv1beta1_SchemeGroupVersion = None"
    and ec: "EventClient exampleConfig = Some (EventsGetter ''events'')"
    and l: "Client legacyConfig = Some legacyClient"
    and no: "ServerResourcesForGroupVersion legacyClient eventsv1beta1_SchemeGroupVersion
        = Some (Errorf ''the server could not find the requested resource'')"
    and cb: "CoreBroadcaster legacyConfig = Some (CoreEventBroadcaster ''core'')"
    and n: "Client noEventClientConfig = Some modernClient"
    and ne: "EventClient noEventClientConfig = None"
    by (simp_all add: exampleConfig_def legacyConfig_def noEventClientConfig_def
          modernClient_def legacyClient_def)
  have builds: "snd (okNew a) = None" "fst (okNew a) = Some (SchedulerCore ''scheduler'')" for a
    by (simp_all add: okNew_def)
  from getRecorderFactory_selects_by_probe [OF m] ok ec
  have 1: "snd (getRecorderFactory exampleConfig) =
        Return (exampleConfig\<lparr>Broadcaster :=
                  Some (NewBroadcaster (EventSinkImpl (Events (EventsGetter ''events'') '''')))\<rparr>,
                NewRecorderFactory
                  (NewBroadcaster (EventSinkImpl (Events (EventsGetter ''events'') ''''))))"
    by blast
  from getRecorderFactory_selects_by_probe [OF l] no
  obtain rf where rf: "snd (getRecorderFactory legacyConfig) = Return (legacyConfig, rf)"
    and adapters: "\<forall>cb name. CoreBroadcaster legacyConfig = Some cb \<longrightarrow>
        rf name = Return (NewEventRecorderAdapter (NewRecorder cb (EventSource name)))"
    and succeeds: "\<forall>N ctx stopCh. snd (N (newArgs legacyConfig rf stopCh Map.empty)) = None \<longrightarrow>
        snd (NewScheduler N ctx legacyConfig stopCh) =
          Return (Some \<lparr>core = fst (N (newArgs legacyConfig rf stopCh Map.empty)),
                        Config = legacyConfig, StopCh = stopCh\<rparr>, None)"
    by blast
  from adapters cb have 2: "rf ''default-scheduler'' =
      Return (NewEventRecorderAdapter
               (NewRecorder (CoreEventBroadcaster ''core'') (EventSource ''default-scheduler'')))"
    by blast
  from succeeds builds have 3: "snd (NewScheduler okNew background legacyConfig (Some 10)) =
      Return (Some \<lparr>core = Some (SchedulerCore ''scheduler''), Config = legacyConfig,
                    StopCh = Some 10\<rparr>, None)"
    by simp
  from getRecorderFactory_selects_by_probe [OF n] ok ne
  have 4: "getRecorderFactory noEventClientConfig =
        ([DiscoveryProbe eventsv1beta1_SchemeGroupVersion], Panic nil_dereference)"
    by blast
  from m ok ec l no cb 1 rf 2 3 builds n ne 4 show ?thesis by (simp add: builtHandle_def)
qed

section \<open>Running\<close>

subsection \<open>The shape of \<^verbatim>\<open>Run\<close>\<close>

lemma gate_no_feeds: "cache_WaitForCacheSync ch [] now = Some (now, True)"
  by (cases ch) (simp_all add: cache_WaitForCacheSync_def recv_def)

lemma Run_unfold:
  assumes "PodInformer (Config sched) = Some p" "InformerFactory (Config sched) = Some f"
  shows "Run sched ctx =
     (let log2 = (case (Broadcaster (Config sched), EventClient (Config sched)) of
                   (Some b, Some ec) \<Rightarrow> [(0, StartRecordingToSink b (StopCh sched))] | _ \<Rightarrow> [])
                 @ [(0, GoInformerRun p (StopCh sched)),
                    (0, InformerFactoryStart f (StopCh sched)),
                    (0, InformerFactoryWaitForCacheSync f (StopCh sched))]
      in case cache_WaitForCacheSync (StopCh sched) (informers f) 0 of
           None \<Rightarrow> (log2, Blocked)
         | Some (t1, ok) \<Rightarrow>
             (log2 @ [(t1, CacheWaitForCacheSync (Done ctx) []), (t1, Receive (StopCh sched))],
              case StopCh sched of None \<Rightarrow> Blocked | Some s \<Rightarrow> Return (max t1 s, None)))"
  using assms
  by (simp add: Run_def Let_def factory_WaitForCacheSync_def gate_no_feeds recv_def
           split: option.splits prod.splits)

lemma Run_example:
  "Run (builtHandle exampleConfig (Some 10)) background =
     ([(0, StartRecordingToSink
             (NewBroadcaster (EventSinkImpl (Events (EventsGetter ''events'') ''''))) (Some 10)),
       (0, GoInformerRun (NewPodInformer (Informer ''pods'' (Some 0))) (Some 10)),
       (0, InformerFactoryStart (SharedInformerFactory [Informer ''nodes'' None]) (Some 10)),
       (0, InformerFactoryWaitForCacheSync (SharedInformerFactory [Informer ''nodes'' None])
             (Some 10)),
       (10, CacheWaitForCacheSync None []),
       (10, Receive (Some 10))],
      Return (10, None))"
  by (simp add: Run_def factory_WaitForCacheSync_def cache_WaitForCacheSync_def recv_def
        exampleConfig_def builtHandle_def background_def Let_def)

text \<open>
  The scenario of the specification: "pods" synced at 0, "nodes" at 5, the stop channel
  closed at 10. The wait is over at 5 and \<^verbatim>\<open>Run\<close> returns nil at 10.
\<close>

lemma Run_scenario_ready:
  "Run (builtHandle (exampleConfig\<lparr>InformerFactory :=
          Some (SharedInformerFactory [Informer ''nodes'' (Some 5)])\<rparr>) (Some 10)) background =
     ([(0, StartRecordingToSink
             (NewBroadcaster (EventSinkImpl (Events (EventsGetter ''events'') ''''))) (Some 10)),
       (0, GoInformerRun (NewPodInformer (Informer ''pods'' (Some 0))) (Some 10)),
       (0, InformerFactoryStart (SharedInformerFactory [Informer ''nodes'' (Some 5)]) (Some 10)),
       (0, InformerFactoryWaitForCacheSync (SharedInformerFactory [Informer ''nodes'' (Some 5)])
             (Some 10)),
       (5, CacheWaitForCacheSync None []),
       (5, Receive (Some 10))],
      Return (10, None))"
  by (simp add: Run_def factory_WaitForCacheSync_def cache_WaitForCacheSync_def
        recv_def Let_def exampleConfig_def builtHandle_def background_def)

subsection \<open>The event recording\<close>



subsection \<open>The informers are launched before the wait\<close>

text \<open>
  C9. Wherever a call that waits for the caches stands in the log of \<^verbatim>\<open>Run\<close> (the wait of the
  informer factory or \<^verbatim>\<open>cache.WaitForCacheSync\<close>), the calls before it include the launch
  of the pod informer of the configuration and the start of its informer factory, both
  on the stop channel of the handle: no wait for the caches is entered before both are
  launched.
\<close>

theorem Run_launches_before_sync_wait:
  assumes "fst (Run sched ctx) = pre @ (t, w) # post" and "isSyncWait w"
  shows "\<exists>p f. PodInformer (Config sched) = Some p \<and> InformerFactory (Config sched) = Some f
        \<and> (0, GoInformerRun p (StopCh sched)) \<in> set pre
        \<and> (0, InformerFactoryStart f (StopCh sched)) \<in> set pre"
  using assms
  apply (simp add: Run_def Let_def split: prod.splits outcome.splits option.splits if_splits)
  apply (auto simp: append_eq_append_conv2 append_eq_Cons_conv Cons_eq_append_conv)
  done

theorem Run_launches_before_sync_wait_witness:
  "isSyncWait (InformerFactoryWaitForCacheSync (SharedInformerFactory [Informer ''nodes'' None]) (Some 10)) \<and>
   (0, GoInformerRun (NewPodInformer (Informer ''pods'' (Some 0))) (Some 10))
      \<in> set (take 3 (fst (Run (builtHandle exampleConfig (Some 10)) background))) \<and>
   (0, InformerFactoryStart (SharedInformerFactory [Informer ''nodes'' None]) (Some 10))
      \<in> set (take 3 (fst (Run (builtHandle exampleConfig (Some 10)) background)))"
proof -
  let ?log = "fst (Run (builtHandle exampleConfig (Some 10)) background)"
  let ?w = "InformerFactoryWaitForCacheSync (SharedInformerFactory [Informer ''nodes'' None]) (Some 10)"
  have split: "?log = take 3 ?log @ (0, ?w) # drop 4 ?log"
    by (simp add: Run_example)
  have w: "isSyncWait ?w" by simp
  from Run_launches_before_sync_wait [OF split w] w show ?thesis
    by (auto simp: exampleConfig_def builtHandle_def background_def)
qed

subsection \<open>When the waits return\<close>

lemma allSyncedAt_Some:
  "allSyncedAt is now = Some t \<Longrightarrow> now \<le> t \<and> list_all (\<lambda>i. hasSynced i t) is"
proof (induction "is" arbitrary: now)
  case Nil
  then show ?case by simp
next
  case (Cons i "is")
  then obtain s where s: "syncedAt i = Some s" and rest: "allSyncedAt is (max now s) = Some t"
    by (auto split: option.splits)
  from Cons.IH [OF rest] s show ?case
    by (simp add: hasSynced_def)
qed

lemma allSyncedAt_least:
  "allSyncedAt is now = Some t \<Longrightarrow> now \<le> t' \<Longrightarrow> list_all (\<lambda>i. hasSynced i t') is \<Longrightarrow> t \<le> t'"
proof (induction "is" arbitrary: now)
  case Nil
  then show ?case by simp
next
  case (Cons i "is")
  then obtain s where s: "syncedAt i = Some s" and rest: "allSyncedAt is (max now s) = Some t"
    by (auto split: option.splits)
  from Cons.prems s have "max now s \<le> t'" "list_all (\<lambda>i. hasSynced i t') is"
    by (simp_all add: hasSynced_def)
  with Cons.IH [OF rest] show ?case by simp
qed

lemma allSyncedAt_None:
  "allSyncedAt is now = None \<Longrightarrow> \<not> list_all (\<lambda>i. hasSynced i t') is"
proof (induction "is" arbitrary: now)
  case Nil
  then show ?case by simp
next
  case (Cons i "is")
  show ?case
  proof (cases "syncedAt i")
    case None
    then show ?thesis by (simp add: hasSynced_def)
  next
    case (Some s)
    with Cons.prems have "allSyncedAt is (max now s) = None" by simp
    from Cons.IH [OF this] show ?thesis by simp
  qed
qed

lemma wait_returns:
  assumes "cache_WaitForCacheSync stopCh (informers f) 0 = Some (t, ok)"
  shows "waitOver f stopCh t \<and> (\<forall>t'<t. \<not> waitOver f stopCh t')"
proof (cases "allSyncedAt (informers f) 0")
  case None
  with assms obtain c where c: "stopCh = Some c" "t = c"
    by (cases stopCh) (auto simp: cache_WaitForCacheSync_def recv_def)
  with allSyncedAt_None [OF None] show ?thesis
    by (auto simp: waitOver_def factorySyncedBy_def closedBy_def)
next
  case (Some ts)
  note synced = allSyncedAt_Some [OF Some] and least = allSyncedAt_least [OF Some]
  show ?thesis
  proof (cases stopCh)
    case None
    with assms Some have "t = ts" by (simp add: cache_WaitForCacheSync_def recv_def)
    with synced least None show ?thesis
      by (fastforce simp: waitOver_def factorySyncedBy_def closedBy_def)
  next
    case (Some c)
    with assms \<open>allSyncedAt (informers f) 0 = Some ts\<close> have "t = min ts c"
      by (auto simp: cache_WaitForCacheSync_def recv_def split: if_splits)
    have "waitOver f stopCh t"
      using synced Some \<open>t = min ts c\<close>
      by (cases "ts \<le> c") (simp_all add: waitOver_def factorySyncedBy_def closedBy_def)
    moreover have "\<not> waitOver f stopCh t'" if "t' < t" for t'
    proof -
      from that \<open>t = min ts c\<close> have "t' < ts" "t' < c" by simp_all
      with least [of t'] Some show ?thesis
        by (auto simp: waitOver_def factorySyncedBy_def closedBy_def)
    qed
    ultimately show ?thesis by blast
  qed
qed

lemma wait_blocks:
  assumes "cache_WaitForCacheSync stopCh (informers f) 0 = None"
  shows "\<not> waitOver f stopCh t"
proof -
  from assms have "allSyncedAt (informers f) 0 = None" "stopCh = None"
    by (auto simp: cache_WaitForCacheSync_def recv_def split: option.splits if_splits)
  with allSyncedAt_None [of "informers f" 0 t] show ?thesis
    by (simp add: waitOver_def factorySyncedBy_def closedBy_def)
qed

lemma wait_returns_iff:
  "(\<exists>ok. cache_WaitForCacheSync stopCh (informers f) 0 = Some (t, ok))
     \<longleftrightarrow> waitOver f stopCh t \<and> (\<forall>t'<t. \<not> waitOver f stopCh t')"
proof
  assume "\<exists>ok. cache_WaitForCacheSync stopCh (informers f) 0 = Some (t, ok)"
  then show "waitOver f stopCh t \<and> (\<forall>t'<t. \<not> waitOver f stopCh t')"
    using wait_returns by blast
next
  assume first: "waitOver f stopCh t \<and> (\<forall>t'<t. \<not> waitOver f stopCh t')"
  show "\<exists>ok. cache_WaitForCacheSync stopCh (informers f) 0 = Some (t, ok)"
  proof (cases "cache_WaitForCacheSync stopCh (informers f) 0")
    case None
    from wait_blocks [OF None] first show ?thesis by blast
  next
    case (Some r)
    obtain t0 ok where r: "r = (t0, ok)" by (cases r)
    from wait_returns [of stopCh f t0 ok] Some r
    have "waitOver f stopCh t0" "\<forall>t'<t0. \<not> waitOver f stopCh t'" by simp_all
    with first have "t0 = t" by (meson linorder_neqE_nat)
    with Some r show ?thesis by simp
  qed
qed

lemma hasSynced_mono: "hasSynced i t \<Longrightarrow> t \<le> t' \<Longrightarrow> hasSynced i t'"
  by (auto simp: hasSynced_def split: option.splits)

lemma factorySyncedBy_mono: "factorySyncedBy f t \<Longrightarrow> t \<le> t' \<Longrightarrow> factorySyncedBy f t'"
  by (auto simp: factorySyncedBy_def list_all_iff intro: hasSynced_mono)

lemma Run_leaves_wait:
  assumes "PodInformer (Config sched) = Some p" "InformerFactory (Config sched) = Some f"
  shows "(t, Receive (StopCh sched)) \<in> set (fst (Run sched ctx))
      \<longleftrightarrow> (t, CacheWaitForCacheSync (Done ctx) []) \<in> set (fst (Run sched ctx))"
  by (auto simp: Run_unfold [OF assms] Let_def split: option.splits prod.splits)

lemma Run_factory_wait_returns:
  assumes "PodInformer (Config sched) = Some p" "InformerFactory (Config sched) = Some f"
  shows "(t, CacheWaitForCacheSync (Done ctx) []) \<in> set (fst (Run sched ctx))
      \<longleftrightarrow> waitOver f (StopCh sched) t \<and> (\<forall>t'<t. \<not> waitOver f (StopCh sched) t')"
proof -
  have "(t, CacheWaitForCacheSync (Done ctx) []) \<in> set (fst (Run sched ctx))
      \<longleftrightarrow> (\<exists>ok. cache_WaitForCacheSync (StopCh sched) (informers f) 0 = Some (t, ok))"
    by (auto simp: Run_unfold [OF assms] Let_def split: option.splits prod.splits)
  then show ?thesis by (simp add: wait_returns_iff)
qed

lemmas run_defs =
  Run_def factory_WaitForCacheSync_def cache_WaitForCacheSync_def recv_def Let_def

text \<open>
  \<^verbatim>\<open>cache.WaitForCacheSync\<close> is handed no informer, so its answer is always true: the branch
  that returns "failed to wait cache sync" is never taken, and a run with its informers
  in place ends exactly when the stop channel is closed.
\<close>

lemma Run_never_fails: "snd (Run sched ctx) \<noteq> Return (t, Some err)"
  by (simp add: Run_def Let_def factory_WaitForCacheSync_def gate_no_feeds
           split: option.splits prod.splits)

lemma Run_returns_when_stopped:
  assumes "PodInformer (Config sched) = Some p" "InformerFactory (Config sched) = Some f"
  shows "snd (Run sched ctx) =
           (case StopCh sched of None \<Rightarrow> Blocked | Some s \<Rightarrow> Return (s, None))"
proof (cases "StopCh sched")
  case None
  then show ?thesis
    by (simp add: Run_unfold [OF assms] Let_def split: option.splits prod.splits)
next
  case (Some s)
  have "\<exists>t ok. cache_WaitForCacheSync (Some s) (informers f) 0 = Some (t, ok) \<and> t \<le> s"
    by (cases "allSyncedAt (informers f) 0") (auto simp: cache_WaitForCacheSync_def recv_def)
  then obtain t ok where "cache_WaitForCacheSync (Some s) (informers f) 0 = Some (t, ok)" "t \<le> s"
    by blast
  with Some show ?thesis
    by (simp add: Run_unfold [OF assms] Let_def)
qed

subsection \<open>A nil return and the state of the feeds\<close>

text \<open>
  C1. The specification has \<^verbatim>\<open>Run\<close> return nil only when the stop channel is closed after
  every feed has synced. \<^verbatim>\<open>Run\<close> at two inputs, both with the stop channel closed at
  moment 10 and a context that is never done. In the first the factory's feed "nodes"
  never syncs: the factory's wait is ended by the stop channel, its answer is dropped,
  and \<^verbatim>\<open>Run\<close> returns nil at 10. In the second the pod informer never syncs: nothing in
  \<^verbatim>\<open>Run\<close> looks at it, and \<^verbatim>\<open>Run\<close> returns nil at 10. At the return not every feed has
  synced.
\<close>

theorem Run_returns_nil_with_feed_unsynced:
  "snd (Run (builtHandle exampleConfig (Some 10)) background) = Return (10, None)
   \<and> \<not> allFeedsSyncedBy (builtHandle exampleConfig (Some 10)) 10
   \<and> snd (Run (builtHandle podsNeverConfig (Some 10)) background) = Return (10, None)
   \<and> \<not> allFeedsSyncedBy (builtHandle podsNeverConfig (Some 10)) 10"
  by (simp add: run_defs allFeedsSyncedBy_def factorySyncedBy_def hasSynced_def exampleConfig_def
        podsNeverConfig_def builtHandle_def background_def)

subsection \<open>A context that is done before the caches have synced\<close>

text \<open>
  C3. The specification has \<^verbatim>\<open>Run\<close> return "failed to wait cache sync" at once when the
  context is done before the caches have synced. \<^verbatim>\<open>Run\<close> with a context done at moment 3:
  with "nodes" never synced and a stop channel that is never closed, it stays in the
  factory's wait for ever; with the stop channel closed at 10 it returns nil at 10; with
  "nodes" synced and the pod informer never synced, \<^verbatim>\<open>cache.WaitForCacheSync\<close> is called at
  moment 0 with no informer, answers true, and \<^verbatim>\<open>Run\<close> goes on to block on the stop channel
  and returns nil at 10.
\<close>

theorem Run_context_done_before_sync:
  "Run (builtHandle exampleConfig None) doneAt3 =
     ([(0, StartRecordingToSink
             (NewBroadcaster (EventSinkImpl (Events (EventsGetter ''events'') ''''))) None),
       (0, GoInformerRun (NewPodInformer (Informer ''pods'' (Some 0))) None),
       (0, InformerFactoryStart (SharedInformerFactory [Informer ''nodes'' None]) None),
       (0, InformerFactoryWaitForCacheSync (SharedInformerFactory [Informer ''nodes'' None]) None)],
      Blocked)
   \<and> snd (Run (builtHandle exampleConfig (Some 10)) doneAt3) = Return (10, None)
   \<and> Run (builtHandle podsNeverConfig (Some 10)) doneAt3 =
     ([(0, StartRecordingToSink
             (NewBroadcaster (EventSinkImpl (Events (EventsGetter ''events'') ''''))) (Some 10)),
       (0, GoInformerRun (NewPodInformer (Informer ''pods'' None)) (Some 10)),
       (0, InformerFactoryStart (SharedInformerFactory [Informer ''nodes'' (Some 0)]) (Some 10)),
       (0, InformerFactoryWaitForCacheSync (SharedInformerFactory [Informer ''nodes'' (Some 0)])
             (Some 10)),
       (0, CacheWaitForCacheSync (Some 3) []),
       (0, Receive (Some 10))],
      Return (10, None))"
  by (simp add: run_defs exampleConfig_def podsNeverConfig_def builtHandle_def doneAt3_def)

subsection \<open>What ends the wait\<close>

text \<open>
  C4, as stated, fails: the stop channel is a third thing that ends the wait. The wait of
  the informer factory is on \<^verbatim>\<open>sched.StopCh\<close>. With a context that is never done, "nodes"
  never synced and the stop channel closed at moment 1, that wait is over at 1, when
  neither every feed has synced nor the context is done.
\<close>

theorem Run_wait_counterexample:
  "(1, CacheWaitForCacheSync (Done background) [])
        \<in> set (fst (Run (builtHandle exampleConfig (Some 1)) background))
   \<and> \<not> allFeedsSyncedBy (builtHandle exampleConfig (Some 1)) 1
   \<and> \<not> closedBy (Done background) 1
   \<and> closedBy (StopCh (builtHandle exampleConfig (Some 1))) 1"
  by (simp add: run_defs closedBy_def allFeedsSyncedBy_def factorySyncedBy_def
        hasSynced_def exampleConfig_def builtHandle_def background_def)

text \<open>
  C4, amended. In a run that has its informers, the waiting phase is not left (the
  receive on the stop channel is not reached, no sync error is returned) before one of
  three things has happened: every feed of the informer factory has synced, the context
  is done, or the stop channel is closed. This is a lower bound: whether the pod
  informer must have synced as well is left open. The stop channel ends the factory's wait: when
  it is closed at a moment at which the factory's feeds have not synced and the context
  is not done, that wait returns at that moment and not before. And once every feed has
  synced, the context not being done, the waiting phase is over. What \<^verbatim>\<open>Run\<close> does when the
  context is done first is not part of this statement.
\<close>

theorem Run_wait_ended_by_stop:
  assumes "PodInformer (Config sched) = Some p" and "InformerFactory (Config sched) = Some f"
  shows "(\<forall>t. ((t, Receive (StopCh sched)) \<in> set (fst (Run sched ctx))
               \<or> (\<exists>err. snd (Run sched ctx) = Return (t, Some err))) \<longrightarrow>
            factorySyncedBy f t \<or> closedBy (Done ctx) t \<or> closedBy (StopCh sched) t)
       \<and> (\<forall>s. StopCh sched = Some s \<and> \<not> factorySyncedBy f s \<and> \<not> closedBy (Done ctx) s \<longrightarrow>
            (s, CacheWaitForCacheSync (Done ctx) []) \<in> set (fst (Run sched ctx))
            \<and> (\<forall>t. t < s \<longrightarrow>
                  (t, CacheWaitForCacheSync (Done ctx) []) \<notin> set (fst (Run sched ctx))))
       \<and> (\<forall>t. allFeedsSyncedBy sched t \<and> \<not> closedBy (Done ctx) t \<longrightarrow>
            (\<exists>t'\<le>t. (t', Receive (StopCh sched)) \<in> set (fst (Run sched ctx))))"
proof -
  have left: "factorySyncedBy f t \<or> closedBy (Done ctx) t \<or> closedBy (StopCh sched) t"
    if "(t, Receive (StopCh sched)) \<in> set (fst (Run sched ctx))
               \<or> (\<exists>err. snd (Run sched ctx) = Return (t, Some err))" for t
  proof -
    from that Run_never_fails [of sched ctx t]
    have "(t, Receive (StopCh sched)) \<in> set (fst (Run sched ctx))" by blast
    then have "waitOver f (StopCh sched) t"
      by (simp add: Run_leaves_wait [OF assms] Run_factory_wait_returns [OF assms])
    then show ?thesis by (auto simp: waitOver_def)
  qed
  have stop: "(s, CacheWaitForCacheSync (Done ctx) []) \<in> set (fst (Run sched ctx))
            \<and> (\<forall>t. t < s \<longrightarrow>
                  (t, CacheWaitForCacheSync (Done ctx) []) \<notin> set (fst (Run sched ctx)))"
    if h: "StopCh sched = Some s \<and> \<not> factorySyncedBy f s \<and> \<not> closedBy (Done ctx) s" for s
  proof -
    from h have over: "waitOver f (StopCh sched) s"
      by (simp add: waitOver_def closedBy_def)
    have before: "\<not> waitOver f (StopCh sched) t" if "t < s" for t
      using h that factorySyncedBy_mono [of f t s]
      by (auto simp: waitOver_def closedBy_def)
    from over before show ?thesis
      by (simp add: Run_factory_wait_returns [OF assms])
  qed
  have synced: "\<exists>t'\<le>t. (t', Receive (StopCh sched)) \<in> set (fst (Run sched ctx))"
    if "allFeedsSyncedBy sched t \<and> \<not> closedBy (Done ctx) t" for t
  proof -
    from that assms have "factorySyncedBy f t"
      by (simp add: allFeedsSyncedBy_def)
    then have over: "waitOver f (StopCh sched) t" by (simp add: waitOver_def)
    then have "\<exists>t'. waitOver f (StopCh sched) t'" by blast
    then obtain t0 where t0: "waitOver f (StopCh sched) t0"
        "\<forall>t'<t0. \<not> waitOver f (StopCh sched) t'"
      using exists_least_iff [of "waitOver f (StopCh sched)"] by blast
    with over have "t0 \<le> t" by (meson not_le)
    moreover from t0 have "(t0, Receive (StopCh sched)) \<in> set (fst (Run sched ctx))"
      by (simp add: Run_leaves_wait [OF assms] Run_factory_wait_returns [OF assms])
    ultimately show ?thesis by blast
  qed
  from left stop synced show ?thesis by blast
qed

theorem Run_wait_ended_by_stop_witness:
  "PodInformer (Config (builtHandle exampleConfig (Some 1))) =
      Some (NewPodInformer (Informer ''pods'' (Some 0)))
   \<and> InformerFactory (Config (builtHandle exampleConfig (Some 1))) =
      Some (SharedInformerFactory [Informer ''nodes'' None])
   \<and> StopCh (builtHandle exampleConfig (Some 1)) = Some 1
   \<and> \<not> factorySyncedBy (SharedInformerFactory [Informer ''nodes'' None]) 1
   \<and> \<not> closedBy (Done background) 1
   \<and> (1, CacheWaitForCacheSync (Done background) [])
        \<in> set (fst (Run (builtHandle exampleConfig (Some 1)) background))
   \<and> (0, CacheWaitForCacheSync (Done background) [])
        \<notin> set (fst (Run (builtHandle exampleConfig (Some 1)) background))
   \<and> (1, Receive (Some 1)) \<in> set (fst (Run (builtHandle exampleConfig (Some 1)) background))
   \<and> closedBy (StopCh (builtHandle exampleConfig (Some 1))) 1
   \<and> PodInformer (Config (builtHandle scenarioConfig (Some 10))) =
      Some (NewPodInformer (Informer ''pods'' (Some 0)))
   \<and> InformerFactory (Config (builtHandle scenarioConfig (Some 10))) =
      Some (SharedInformerFactory [Informer ''nodes'' (Some 5)])
   \<and> allFeedsSyncedBy (builtHandle scenarioConfig (Some 10)) 5
   \<and> (\<exists>t'\<le>5. (t', Receive (StopCh (builtHandle scenarioConfig (Some 10))))
          \<in> set (fst (Run (builtHandle scenarioConfig (Some 10)) background)))"
proof -
  let ?h = "builtHandle exampleConfig (Some 1)"
  let ?g = "builtHandle scenarioConfig (Some 10)"
  let ?f = "SharedInformerFactory [Informer ''nodes'' None]"
  have p: "PodInformer (Config ?h) = Some (NewPodInformer (Informer ''pods'' (Some 0)))"
    and f: "InformerFactory (Config ?h) = Some ?f"
    and s: "StopCh ?h = Some 1"
    by (simp_all add: exampleConfig_def builtHandle_def)
  have p': "PodInformer (Config ?g) = Some (NewPodInformer (Informer ''pods'' (Some 0)))"
    and f': "InformerFactory (Config ?g) =
        Some (SharedInformerFactory [Informer ''nodes'' (Some 5)])"
    by (simp_all add: scenarioConfig_def exampleConfig_def builtHandle_def)
  have unsynced: "\<not> factorySyncedBy ?f 1"
    and live: "\<not> closedBy (Done background) 1" "\<not> closedBy (Done background) 5"
    by (simp_all add: factorySyncedBy_def closedBy_def hasSynced_def background_def)
  have rcv: "(1, Receive (Some 1)) \<in> set (fst (Run ?h background))"
    by (simp add: run_defs exampleConfig_def builtHandle_def background_def)
  have all: "allFeedsSyncedBy ?g 5"
    by (simp add: allFeedsSyncedBy_def factorySyncedBy_def hasSynced_def scenarioConfig_def
          exampleConfig_def builtHandle_def)
  note w = Run_wait_ended_by_stop
  from w [OF p f, of background] s unsynced live(1)
  have 1: "(1, CacheWaitForCacheSync (Done background) []) \<in> set (fst (Run ?h background))"
    and 2: "(0, CacheWaitForCacheSync (Done background) []) \<notin> set (fst (Run ?h background))"
    by auto
  from w [OF p f, of background] rcv s unsynced live(1)
  have 3: "closedBy (StopCh ?h) 1"
    by auto
  from w [OF p' f', of background] all live(2)
  have 4: "\<exists>t'\<le>5. (t', Receive (StopCh ?g)) \<in> set (fst (Run ?g background))"
    by blast
  from p f s unsynced live(1) 1 2 rcv 3 p' f' all 4 show ?thesis by simp
qed

end
